theory Spec2Isabelle
  imports Complex_Main
begin

section \<open>Data model\<close>

text \<open>
  The rows of the relational schema (\<^verbatim>\<open>shared/schema.ts\<close>). Timestamps are
  \<^verbatim>\<open>Date.getTime()\<close> values: milliseconds since the epoch. A rate table is the
  JSON object \<^verbatim>\<open>Record<string, number>\<close>, kept as a key-value list of its own
  properties. Identifiers are the text of uuid columns.

  The store is a list of rows per table, in insertion order. The database refuses an
  id that is not the text of a uuid, refuses to delete a beneficiary that a transaction
  refers to, and may be out of reach; column widths and the other constraints are not
  part of the model.
\<close>

type_synonym timestamp = int

type_synonym rate_table = "(string \<times> rat) list"

record fx_row =
  baseCurrency :: string
  rates :: rate_table
  lastUpdated :: timestamp

record beneficiary =
  b_id :: string
  b_userId :: string
  b_name :: string
  b_accountNumber :: string
  b_country :: string
  b_currency :: string
  b_createdAt :: timestamp
  b_updatedAt :: timestamp

text \<open>
  \<^verbatim>\<open>InsertTransaction & { userId: string }\<close>: the argument of
  \<^verbatim>\<open>createTransaction\<close>. The decimal columns travel as strings; \<open>sourceAmount\<close> is
  kept as the number that \<^verbatim>\<open>Number(transaction.sourceAmount)\<close> reads from its
  string, a finite one (the insert schema admits only strings for which that number is
  not NaN). A finite double is a rational number, and its comparison with 10000 is the
  comparison of the rationals.
\<close>

record insert_transaction =
  userId :: string
  beneficiaryId :: string
  sourceAmount :: rat
  sourceCurrency :: string
  targetAmount :: string
  targetCurrency :: string
  exchangeRate :: string
  baseFee :: string
  exchangeFee :: string
  totalFee :: string
  purpose :: string

record transaction = insert_transaction +
  t_id :: string
  status :: string
  isHighRisk :: bool
  adminNotes :: "string option"
  createdAt :: timestamp
  updatedAt :: timestamp

text \<open>
  The calls the FX service makes to the outside (the store's rate cache and the rate
  provider) are recorded in \<open>fxLog\<close>, in the order they happen.
\<close>

datatype fx_event = ReadLatestFxRates | InsertFxRates | HttpGet string

record world =
  beneficiaries :: "beneficiary list"
  transactions :: "transaction list"
  fxRates :: "fx_row list"
  fxLog :: "fx_event list"

text \<open>
  What a request finds outside the store: the clock (\<^verbatim>\<open>new Date()\<close>), the first
  instant of the current calendar year in local time
  (\<^verbatim>\<open>new Date(now.getFullYear(), 0, 1)\<close>), what the rate provider answers to
  \<^verbatim>\<open>fetch(`${baseUrl}/${baseCurrency}`)\<close>, by base currency, whether the database
  answers the calls of the request, and whether it answers the calls made after an
  error of the request has been caught.

  An answer of the provider is a rejected \<^verbatim>\<open>fetch\<close>, or a response with its status
  code and body. The body is either one for which \<^verbatim>\<open>response.json()\<close> rejects (or
  whose fields cannot be read), or an object, of which the code reads whether
  \<^verbatim>\<open>success\<close> is truthy and the \<^verbatim>\<open>rates\<close> object (\<open>None\<close> when the field is
  missing).
\<close>

datatype response_body = NotJson | Payload bool "rate_table option"

datatype fetch_result = Rejected | Response nat response_body

record env =
  now :: timestamp
  yearStart :: timestamp
  provider :: "string \<Rightarrow> fetch_result"
  storeUp :: bool
  storeUpAfter :: bool

datatype error =
    FetchRejected
  | ApiError nat
  | JsonRejected
  | InvalidResponse
  | RateUnavailable string string
  | StoreUnavailable
  | InvalidUuid string
  | ForeignKeyViolation


section \<open>Numbers\<close>

text \<open>
  A JavaScript number is a double. The finite doubles are rational numbers, and the
  result of an operation is the exact result rounded to the nearest double, to the one
  with the even significand when two are equally near: 53 significant bits from
  \<open>2 ^ - 1022\<close> on, multiples of \<open>2 ^ - 1074\<close> below. (\<^verbatim>\<open>NaN\<close> and the infinities are not
  represented: beyond the largest double the result is \<^verbatim>\<open>Infinity\<close>; the numbers of
  this development stay far below.)
\<close>

definition pow2 :: "int \<Rightarrow> rat" where
  "pow2 k = (if 0 \<le> k then 2 ^ nat k else 1 / 2 ^ nat (- k))"

function scale_up :: "rat \<Rightarrow> int \<Rightarrow> int" where
  "scale_up x k = (if x < 1 \<and> - 1022 < k then scale_up (2 * x) (k - 1) else k)"
  by pat_completeness auto
termination
  by (relation "measure (\<lambda>(x, k). nat (k + 1022))") auto

function scale_down :: "rat \<Rightarrow> int \<Rightarrow> int" where
  "scale_down x k = (if 2 \<le> x \<and> k < 1023 then scale_down (x / 2) (k + 1) else k)"
  by pat_completeness auto
termination
  by (relation "measure (\<lambda>(x, k). nat (1023 - k))") auto

text \<open>The binary exponent of a positive number, within the range of the doubles.\<close>

definition exponent :: "rat \<Rightarrow> int" where
  "exponent x = (if 1 \<le> x then scale_down x 0 else scale_up x 0)"

definition round_half_even :: "rat \<Rightarrow> int" where
  "round_half_even r =
     (let f = \<lfloor>r\<rfloor>; d = r - of_int f
      in if d < 1 / 2 then f else if 1 / 2 < d then f + 1 else if even f then f else f + 1)"

definition binary64 :: "rat \<Rightarrow> rat" where
  "binary64 x =
     (if x = 0 then 0
      else (let q = pow2 (exponent \<bar>x\<bar> - 52)
            in sgn x * of_int (round_half_even (\<bar>x\<bar> / q)) * q))"

text \<open>
  \<^verbatim>\<open>x.toFixed(2)\<close> is the numeral \<open>n / 100\<close> for the integer \<open>n\<close> for which \<open>n / 100\<close> is
  nearest to \<open>x\<close>, the larger one of two (the sign apart); from \<open>10 ^ 21\<close> on it is the
  numeral of \<open>x\<close> itself. \<^verbatim>\<open>Number\<close> reads a numeral as the nearest double.
\<close>

definition toFixed2 :: "rat \<Rightarrow> rat" where
  "toFixed2 x =
     (if x < 0 then - (of_int \<lfloor>- x * 100 + 1 / 2\<rfloor> / 100)
      else of_int \<lfloor>x * 100 + 1 / 2\<rfloor> / 100)"

text \<open>\<^verbatim>\<open>Number(x.toFixed(2))\<close>.\<close>

definition fixed2 :: "rat \<Rightarrow> rat" where
  "fixed2 x = (if 10 ^ 21 \<le> \<bar>x\<bar> then x else binary64 (toFixed2 x))"


section \<open>Identifiers\<close>

text \<open>
  The database reads the text of a uuid: sixteen bytes of two hexadecimal digits each,
  with an optional hyphen after every second byte but the last, the whole optionally
  in braces. Its value is written in lower case, in five groups.
\<close>

definition lower :: "char \<Rightarrow> char" where
  "lower c =
     (case map_of (zip ''ABCDEFGHIJKLMNOPQRSTUVWXYZ'' ''abcdefghijklmnopqrstuvwxyz'') c of
        Some l \<Rightarrow> l
      | None \<Rightarrow> c)"

definition is_hex :: "char \<Rightarrow> bool" where
  "is_hex c = (c \<in> set ''0123456789abcdefABCDEF'')"

definition skip_hyphen :: "string \<Rightarrow> string" where
  "skip_hyphen s = (case s of [] \<Rightarrow> [] | c # r \<Rightarrow> if c = CHR ''-'' then r else s)"

text \<open>\<open>uuid_bytes k\<close> reads the last \<open>k\<close> bytes: their digits and the text left over.\<close>

primrec uuid_bytes :: "nat \<Rightarrow> string \<Rightarrow> (string \<times> string) option" where
  "uuid_bytes 0 s = Some ([], s)"
| "uuid_bytes (Suc k) s =
     (case s of
        [] \<Rightarrow> None
      | a # s1 \<Rightarrow>
          (case s1 of
             [] \<Rightarrow> None
           | b # s2 \<Rightarrow>
               if is_hex a \<and> is_hex b then
                 (case uuid_bytes k (if even k \<and> 0 < k then skip_hyphen s2 else s2) of
                    None \<Rightarrow> None
                  | Some (ds, r) \<Rightarrow> Some (lower a # lower b # ds, r))
               else None))"

definition uuid_in :: "string \<Rightarrow> string option" where
  "uuid_in s =
     (let braces = (case s of [] \<Rightarrow> False | c # r \<Rightarrow> c = CHR ''{'');
          body = (if braces then tl s else s)
      in case uuid_bytes 16 body of
           None \<Rightarrow> None
         | Some (ds, r) \<Rightarrow>
             if r = (if braces then ''}'' else [])
             then Some (take 8 ds @ ''-'' @ take 4 (drop 8 ds) @ ''-'' @ take 4 (drop 12 ds)
                        @ ''-'' @ take 4 (drop 16 ds) @ ''-'' @ drop 20 ds)
             else None)"

text \<open>
  An id given to a query that compares it with a uuid column: the query fails when the
  database is out of reach or the text is not a uuid.
\<close>

definition id_param :: "env \<Rightarrow> string \<Rightarrow> error + string" where
  "id_param e i =
     (if \<not> storeUp e then Inl StoreUnavailable
      else (case uuid_in i of None \<Rightarrow> Inl (InvalidUuid i) | Some u \<Rightarrow> Inr u))"


section \<open>Storage: the rate cache\<close>

text \<open>
  \<^verbatim>\<open>select().from(fxRates).orderBy(desc(fxRates.lastUpdated)).limit(1)\<close>: a row with
  the greatest \<open>lastUpdated\<close> (the earliest inserted one among equals).
\<close>

definition newest :: "fx_row list \<Rightarrow> fx_row option" where
  "newest rows =
     (case rows of
        [] \<Rightarrow> None
      | r # rs \<Rightarrow> Some (foldl (\<lambda>best x. if lastUpdated best < lastUpdated x then x else best) r rs))"

definition getLatestFxRates :: "env \<Rightarrow> world \<Rightarrow> (error + fx_row option) \<times> world" where
  "getLatestFxRates e w =
     (if storeUp e then Inr (newest (fxRates w)) else Inl StoreUnavailable,
      w\<lparr>fxLog := fxLog w @ [ReadLatestFxRates]\<rparr>)"

definition updateFxRates :: "env \<Rightarrow> rate_table \<Rightarrow> world \<Rightarrow> (error + fx_row) \<times> world" where
  "updateFxRates e rs w =
     (let row = \<lparr>baseCurrency = ''USD'', rates = rs, lastUpdated = now e\<rparr>
      in if storeUp e
         then (Inr row, w\<lparr>fxRates := fxRates w @ [row], fxLog := fxLog w @ [InsertFxRates]\<rparr>)
         else (Inl StoreUnavailable, w\<lparr>fxLog := fxLog w @ [InsertFxRates]\<rparr>))"


section \<open>FxService\<close>

definition cacheDuration :: int where
  "cacheDuration = 15 * 60 * 1000"

definition isCacheValid :: "env \<Rightarrow> timestamp \<Rightarrow> bool" where
  "isCacheValid e lu = (now e - lu < cacheDuration)"

definition getFallbackRates :: rate_table where
  "getFallbackRates =
     [(''EUR'', 8547 / 10000),
      (''GBP'', 7834 / 10000),
      (''JPY'', 14925 / 100),
      (''KRW'', 1325),
      (''CAD'', 135 / 100),
      (''AUD'', 15234 / 10000),
      (''CHF'', 8923 / 10000),
      (''CNY'', 72456 / 10000),
      (''INR'', 831245 / 10000),
      (''MXN'', 178934 / 10000)]"

definition ok :: "nat \<Rightarrow> bool" where
  "ok st = (200 \<le> st \<and> st \<le> 299)"

text \<open>
  Lines 29 to 39 of \<^verbatim>\<open>getCurrentRates\<close>: the request to the provider and the checks
  on its answer. The result is the \<^verbatim>\<open>rates\<close> field of the payload, or the error
  thrown.
\<close>

definition fetchRates :: "env \<Rightarrow> string \<Rightarrow> error + rate_table option" where
  "fetchRates e base =
     (case provider e base of
        Rejected \<Rightarrow> Inl FetchRejected
      | Response st body \<Rightarrow>
          if \<not> ok st then Inl (ApiError st)
          else (case body of
                  NotJson \<Rightarrow> Inl JsonRejected
                | Payload success rs \<Rightarrow>
                    if \<not> success \<and> rs \<noteq> None then Inl InvalidResponse else Inr rs))"


text \<open>
  Lines 28 to 46: the rates are fetched, a payload without \<^verbatim>\<open>rates\<close> is replaced by
  the fallback table (\<^verbatim>\<open>data.rates || this.getFallbackRates()\<close>), and the table is
  written to the cache.
\<close>

definition getCurrentRates_fresh :: "env \<Rightarrow> string \<Rightarrow> world \<Rightarrow> (error + rate_table) \<times> world" where
  "getCurrentRates_fresh e base w =
     (let w1 = w\<lparr>fxLog := fxLog w @ [HttpGet base]\<rparr>
      in case fetchRates e base of
           Inl err \<Rightarrow> (Inl err, w1)
         | Inr payload \<Rightarrow>
             (let rs = (case payload of Some r \<Rightarrow> r | None \<Rightarrow> getFallbackRates)
              in case updateFxRates e rs w1 of
                   (Inl err, w2) \<Rightarrow> (Inl err, w2)
                 | (Inr row, w2) \<Rightarrow> (Inr rs, w2)))"

text \<open>The \<^verbatim>\<open>try\<close> block of \<^verbatim>\<open>getCurrentRates\<close>.\<close>

definition getCurrentRates_try :: "env \<Rightarrow> string \<Rightarrow> world \<Rightarrow> (error + rate_table) \<times> world" where
  "getCurrentRates_try e base w =
     (case getLatestFxRates e w of
        (Inl err, w1) \<Rightarrow> (Inl err, w1)
      | (Inr cachedRates, w1) \<Rightarrow>
          (case cachedRates of
             None \<Rightarrow> getCurrentRates_fresh e base w1
           | Some c \<Rightarrow>
               if isCacheValid e (lastUpdated c) then (Inr (rates c), w1)
               else getCurrentRates_fresh e base w1))"

text \<open>
  The \<^verbatim>\<open>catch\<close> block of \<^verbatim>\<open>getCurrentRates\<close>. Its read of the cache is not guarded:
  an error of the store here is raised to the caller. (In \<open>getCurrentRates\<close> the block
  runs when the error of the \<^verbatim>\<open>try\<close> block has been caught.)
\<close>

definition getCurrentRates_catch :: "env \<Rightarrow> world \<Rightarrow> (error + rate_table) \<times> world" where
  "getCurrentRates_catch e w =
     (case getLatestFxRates e w of
        (Inl err, w1) \<Rightarrow> (Inl err, w1)
      | (Inr cachedRates, w1) \<Rightarrow>
          (case cachedRates of
             Some c \<Rightarrow> (Inr (rates c), w1)
           | None \<Rightarrow> (Inr getFallbackRates, w1)))"

definition getCurrentRates :: "env \<Rightarrow> string \<Rightarrow> world \<Rightarrow> (error + rate_table) \<times> world" where
  "getCurrentRates e base w =
     (case getCurrentRates_try e base w of
        (Inr rs, w1) \<Rightarrow> (Inr rs, w1)
      | (Inl err, w1) \<Rightarrow> getCurrentRates_catch (e\<lparr>storeUp := storeUpAfter e\<rparr>) w1)"

text \<open>
  \<^verbatim>\<open>rates[toCurrency]\<close> on a plain object: the table's own entry of that name, or else
  the property of that name that every object inherits, a function or an object and
  not a number.
\<close>

datatype js_value = Rate rat | Inherited string

definition object_prototype_keys :: "string list" where
  "object_prototype_keys =
     [''constructor'', ''hasOwnProperty'', ''isPrototypeOf'', ''propertyIsEnumerable'',
      ''toLocaleString'', ''toString'', ''valueOf'', ''__proto__'', ''__defineGetter__'',
      ''__defineSetter__'', ''__lookupGetter__'', ''__lookupSetter__'']"

definition get_property :: "rate_table \<Rightarrow> string \<Rightarrow> js_value option" where
  "get_property rs k =
     (case map_of rs k of
        Some v \<Rightarrow> Some (Rate v)
      | None \<Rightarrow> if k \<in> set object_prototype_keys then Some (Inherited k) else None)"

text \<open>\<^verbatim>\<open>!rate\<close> holds of a missing property and of the number 0.\<close>

definition getExchangeRate ::
  "env \<Rightarrow> string \<Rightarrow> string \<Rightarrow> world \<Rightarrow> (error + js_value) \<times> world" where
  "getExchangeRate e fromCurrency toCurrency w =
     (if fromCurrency = toCurrency then (Inr (Rate 1), w)
      else
        (case getCurrentRates e fromCurrency w of
           (Inl err, w1) \<Rightarrow> (Inl err, w1)
         | (Inr rs, w1) \<Rightarrow>
             (case get_property rs toCurrency of
                None \<Rightarrow> (Inl (RateUnavailable fromCurrency toCurrency), w1)
              | Some rate \<Rightarrow>
                  if rate = Rate 0 then (Inl (RateUnavailable fromCurrency toCurrency), w1)
                  else (Inr rate, w1))))"

text \<open>
  \<^verbatim>\<open>calculateFees\<close>: the literals are read as doubles, the product and the sum are those
  of doubles.
\<close>

record fee_quote =
  quote_baseFee :: rat
  quote_exchangeFee :: rat
  quote_totalFee :: rat

definition calculateFees :: "rat \<Rightarrow> fee_quote" where
  "calculateFees amount =
     (let baseFee' = binary64 (499 / 100);
          exchangeFeePercent = binary64 (5 / 1000);
          exchangeFee' = fixed2 (binary64 (amount * exchangeFeePercent));
          totalFee' = fixed2 (binary64 (baseFee' + exchangeFee'))
      in \<lparr>quote_baseFee = baseFee', quote_exchangeFee = exchangeFee',
          quote_totalFee = totalFee'\<rparr>)"

text \<open>
  The currency codes of the rate tables and of the beneficiaries: three capital
  letters.
\<close>

definition is_currency_code :: "string \<Rightarrow> bool" where
  "is_currency_code s =
     (length s = 3 \<and> list_all (\<lambda>c. c \<in> set ''ABCDEFGHIJKLMNOPQRSTUVWXYZ'') s)"


section \<open>Storage: beneficiaries\<close>

text \<open>\<^verbatim>\<open>Partial<InsertBeneficiary>\<close>: a field that is absent is \<open>None\<close>.\<close>

record beneficiary_patch =
  p_name :: "string option"
  p_accountNumber :: "string option"
  p_country :: "string option"
  p_currency :: "string option"

text \<open>\<^verbatim>\<open>InsertBeneficiary & { userId: string }\<close>.\<close>

record insert_beneficiary =
  i_userId :: string
  i_name :: string
  i_accountNumber :: string
  i_country :: string
  i_currency :: string

definition getBeneficiaryById :: "env \<Rightarrow> world \<Rightarrow> string \<Rightarrow> error + beneficiary option" where
  "getBeneficiaryById e w i =
     (case id_param e i of
        Inl err \<Rightarrow> Inl err
      | Inr u \<Rightarrow> Inr (find (\<lambda>b. b_id b = u) (beneficiaries w)))"

definition createBeneficiary :: "env \<Rightarrow> string \<Rightarrow> insert_beneficiary \<Rightarrow> world \<Rightarrow> beneficiary \<times> world" where
  "createBeneficiary e newId b w =
     (let newBeneficiary =
            \<lparr>b_id = newId, b_userId = i_userId b, b_name = i_name b,
             b_accountNumber = i_accountNumber b, b_country = i_country b,
             b_currency = i_currency b, b_createdAt = now e, b_updatedAt = now e\<rparr>
      in (newBeneficiary, w\<lparr>beneficiaries := beneficiaries w @ [newBeneficiary]\<rparr>))"

text \<open>\<^verbatim>\<open>.set({ ...beneficiary, updatedAt: new Date() })\<close> on one row.\<close>

definition set_beneficiary :: "env \<Rightarrow> beneficiary_patch \<Rightarrow> beneficiary \<Rightarrow> beneficiary" where
  "set_beneficiary e p b =
     b\<lparr>b_name := (case p_name p of None \<Rightarrow> b_name b | Some v \<Rightarrow> v),
       b_accountNumber := (case p_accountNumber p of None \<Rightarrow> b_accountNumber b | Some v \<Rightarrow> v),
       b_country := (case p_country p of None \<Rightarrow> b_country b | Some v \<Rightarrow> v),
       b_currency := (case p_currency p of None \<Rightarrow> b_currency b | Some v \<Rightarrow> v),
       b_updatedAt := now e\<rparr>"

definition updateBeneficiary ::
  "env \<Rightarrow> string \<Rightarrow> beneficiary_patch \<Rightarrow> world \<Rightarrow> (error + beneficiary option) \<times> world" where
  "updateBeneficiary e i p w =
     (case id_param e i of
        Inl err \<Rightarrow> (Inl err, w)
      | Inr u \<Rightarrow>
          (let bs = map (\<lambda>b. if b_id b = u then set_beneficiary e p b else b) (beneficiaries w)
           in (Inr (find (\<lambda>b. b_id b = u) bs), w\<lparr>beneficiaries := bs\<rparr>)))"

text \<open>
  The result is \<^verbatim>\<open>(result.rowCount ?? 0) > 0\<close>. The column
  \<^verbatim>\<open>transactions.beneficiaryId\<close> refers to \<^verbatim>\<open>beneficiaries.id\<close>: a row that a
  transaction refers to is not deleted, and the query fails.
\<close>

definition deleteBeneficiary :: "env \<Rightarrow> string \<Rightarrow> world \<Rightarrow> (error + bool) \<times> world" where
  "deleteBeneficiary e i w =
     (case id_param e i of
        Inl err \<Rightarrow> (Inl err, w)
      | Inr u \<Rightarrow>
          if filter (\<lambda>b. b_id b = u) (beneficiaries w) \<noteq> [] \<and>
             filter (\<lambda>t. beneficiaryId t = u) (transactions w) \<noteq> []
          then (Inl ForeignKeyViolation, w)
          else (Inr (0 < length (filter (\<lambda>b. b_id b = u) (beneficiaries w))),
                w\<lparr>beneficiaries := filter (\<lambda>b. b_id b \<noteq> u) (beneficiaries w)\<rparr>))"


section \<open>Storage: transactions\<close>

definition getTransactionById :: "env \<Rightarrow> world \<Rightarrow> string \<Rightarrow> error + transaction option" where
  "getTransactionById e w i =
     (case id_param e i of
        Inl err \<Rightarrow> Inl err
      | Inr u \<Rightarrow> Inr (find (\<lambda>t. t_id t = u) (transactions w)))"

text \<open>
  \<^verbatim>\<open>createTransaction\<close>: the row is the argument with \<open>isHighRisk\<close> and \<open>status\<close> set from
  the source amount; the database gives it its id and its two timestamps. (This is the
  insert as the database carries it out.)
\<close>

definition createTransaction ::
  "env \<Rightarrow> string \<Rightarrow> insert_transaction \<Rightarrow> world \<Rightarrow> transaction \<times> world" where
  "createTransaction e newId tx w =
     (let sourceAmount' = sourceAmount tx;
          isHighRisk' = (sourceAmount' > 10000);
          newTransaction =
            \<lparr>userId = userId tx, beneficiaryId = beneficiaryId tx,
             sourceAmount = sourceAmount tx, sourceCurrency = sourceCurrency tx,
             targetAmount = targetAmount tx, targetCurrency = targetCurrency tx,
             exchangeRate = exchangeRate tx, baseFee = baseFee tx,
             exchangeFee = exchangeFee tx, totalFee = totalFee tx, purpose = purpose tx,
             t_id = newId,
             status = (if sourceAmount' > 10000 then ''pending'' else ''completed''),
             isHighRisk = isHighRisk',
             adminNotes = None, createdAt = now e, updatedAt = now e\<rparr>
      in (newTransaction, w\<lparr>transactions := transactions w @ [newTransaction]\<rparr>))"

text \<open>
  \<^verbatim>\<open>.set({ status, adminNotes, updatedAt: new Date() })\<close> on one row; a value that is
  \<^verbatim>\<open>undefined\<close> (\<open>None\<close>) leaves its column as it is.
\<close>

definition set_status :: "env \<Rightarrow> string \<Rightarrow> string option \<Rightarrow> transaction \<Rightarrow> transaction" where
  "set_status e st notes t =
     t\<lparr>status := st,
       adminNotes := (case notes of None \<Rightarrow> adminNotes t | Some n \<Rightarrow> Some n),
       updatedAt := now e\<rparr>"

definition updateTransactionStatus ::
  "env \<Rightarrow> string \<Rightarrow> string \<Rightarrow> string option \<Rightarrow> world
     \<Rightarrow> (error + transaction option) \<times> world" where
  "updateTransactionStatus e i st notes w =
     (case id_param e i of
        Inl err \<Rightarrow> (Inl err, w)
      | Inr u \<Rightarrow>
          (let ts = map (\<lambda>t. if t_id t = u then set_status e st notes t else t) (transactions w)
           in (Inr (find (\<lambda>t. t_id t = u) ts), w\<lparr>transactions := ts\<rparr>)))"


subsection \<open>searchTransactions\<close>

text \<open>
  \<^verbatim>\<open>ilike(beneficiaries.name, `%${query}%`)\<close>: the pattern language of \<^verbatim>\<open>LIKE\<close>, on
  lower-cased text. In a pattern \<^verbatim>\<open>%\<close> stands for any text, \<^verbatim>\<open>_\<close> for any one
  character, and a backslash makes the character after it stand for itself. (A pattern
  that ends in a lone backslash is refused by the database; the patterns built here
  end in \<^verbatim>\<open>%\<close>.)
\<close>

fun like :: "string \<Rightarrow> string \<Rightarrow> bool" where
  "like s [] = (s = [])"
| "like s (p # ps) =
     (if p = CHR ''%'' then
        (like s ps \<or> (case s of [] \<Rightarrow> False | c # cs \<Rightarrow> like cs (p # ps)))
      else if p = CHR ''_'' then
        (case s of [] \<Rightarrow> False | c # cs \<Rightarrow> like cs ps)
      else if p = CHR 0x5C then
        (case ps of
           [] \<Rightarrow> False
         | q # qs \<Rightarrow> (case s of [] \<Rightarrow> False | c # cs \<Rightarrow> c = q \<and> like cs qs))
      else
        (case s of [] \<Rightarrow> False | c # cs \<Rightarrow> c = p \<and> like cs ps))"

definition ilike :: "string \<Rightarrow> string \<Rightarrow> bool" where
  "ilike s p = like (map lower s) (map lower p)"

text \<open>\<^verbatim>\<open>.orderBy(desc(transactions.createdAt))\<close>; rows of equal time keep their order.\<close>

definition newest_first :: "transaction list \<Rightarrow> transaction list" where
  "newest_first ts = sort_key (\<lambda>t. - createdAt t) ts"

definition dateThreshold :: "env \<Rightarrow> string \<Rightarrow> timestamp" where
  "dateThreshold e dateRange =
     (if dateRange = ''30days'' then now e - 30 * 24 * 60 * 60 * 1000
      else if dateRange = ''90days'' then now e - 90 * 24 * 60 * 60 * 1000
      else if dateRange = ''year'' then yearStart e
      else 0)"

text \<open>
  An absent \<^verbatim>\<open>dateRange\<close> is \<open>None\<close>; \<^verbatim>\<open>if (query)\<close> and \<^verbatim>\<open>if (dateRange)\<close> hold of
  a string that is not empty. The branch for a query returns the joined rows at once.
\<close>

definition searchTransactions ::
  "env \<Rightarrow> string \<Rightarrow> string \<Rightarrow> string option \<Rightarrow> world \<Rightarrow> transaction list" where
  "searchTransactions e uid query dateRange w =
     (if query \<noteq> [] then
        newest_first
          [t. t \<leftarrow> transactions w, b \<leftarrow> beneficiaries w,
              beneficiaryId t = b_id b,
              userId t = uid \<and> ilike (b_name b) (''%'' @ query @ ''%'')]
      else
        (case dateRange of
           None \<Rightarrow> newest_first (filter (\<lambda>t. userId t = uid) (transactions w))
         | Some d \<Rightarrow>
             if d = [] then newest_first (filter (\<lambda>t. userId t = uid) (transactions w))
             else
               newest_first
                 (filter (\<lambda>t. userId t = uid \<and> dateThreshold e d \<le> createdAt t)
                    (transactions w))))"


section \<open>Routes\<close>

text \<open>
  A handler's answer: a JSON value or a \<^verbatim>\<open>{ message }\<close> object, with the status code.
  The caller of a route is the principal that \<^verbatim>\<open>authenticateToken\<close> has put into
  \<^verbatim>\<open>req.user\<close>. Whatever is thrown inside a handler is answered by its
  \<^verbatim>\<open>catch\<close> block.
\<close>

datatype 'a reply = Json nat 'a | Message nat string

text \<open>
  \<^verbatim>\<open>insertBeneficiarySchema.partial().parse(req.body)\<close> succeeds: each field that is
  present satisfies the schema's bound on its length.
\<close>

definition valid_patch :: "beneficiary_patch \<Rightarrow> bool" where
  "valid_patch p =
     ((case p_name p of None \<Rightarrow> True | Some v \<Rightarrow> 2 \<le> length v) \<and>
      (case p_accountNumber p of None \<Rightarrow> True | Some v \<Rightarrow> 5 \<le> length v) \<and>
      (case p_country p of None \<Rightarrow> True | Some v \<Rightarrow> length v = 2) \<and>
      (case p_currency p of None \<Rightarrow> True | Some v \<Rightarrow> length v = 3))"

text \<open>\<^verbatim>\<open>PUT /api/beneficiaries/:id\<close>.\<close>

definition put_beneficiary ::
  "env \<Rightarrow> string \<Rightarrow> string \<Rightarrow> beneficiary_patch \<Rightarrow> world \<Rightarrow> beneficiary option reply \<times> world" where
  "put_beneficiary e caller i body w =
     (if \<not> valid_patch body then (Message 400 ''Failed to update beneficiary'', w)
      else
        (case getBeneficiaryById e w i of
           Inl err \<Rightarrow> (Message 400 ''Failed to update beneficiary'', w)
         | Inr None \<Rightarrow> (Message 404 ''Beneficiary not found'', w)
         | Inr (Some existingBeneficiary) \<Rightarrow>
             if b_userId existingBeneficiary \<noteq> caller
             then (Message 404 ''Beneficiary not found'', w)
             else (case updateBeneficiary e i body w of
                     (Inl err, w1) \<Rightarrow> (Message 400 ''Failed to update beneficiary'', w1)
                   | (Inr updatedBeneficiary, w1) \<Rightarrow> (Json 200 updatedBeneficiary, w1))))"

text \<open>\<^verbatim>\<open>DELETE /api/beneficiaries/:id\<close>.\<close>

definition delete_beneficiary :: "env \<Rightarrow> string \<Rightarrow> string \<Rightarrow> world \<Rightarrow> unit reply \<times> world" where
  "delete_beneficiary e caller i w =
     (case getBeneficiaryById e w i of
        Inl err \<Rightarrow> (Message 500 ''Failed to delete beneficiary'', w)
      | Inr None \<Rightarrow> (Message 404 ''Beneficiary not found'', w)
      | Inr (Some existingBeneficiary) \<Rightarrow>
          if b_userId existingBeneficiary \<noteq> caller
          then (Message 404 ''Beneficiary not found'', w)
          else (case deleteBeneficiary e i w of
                  (Inl err, w1) \<Rightarrow> (Message 500 ''Failed to delete beneficiary'', w1)
                | (Inr deleted, w1) \<Rightarrow>
                    if deleted then (Message 200 ''Beneficiary deleted successfully'', w1)
                    else (Message 404 ''Beneficiary not found'', w1)))"

text \<open>
  \<^verbatim>\<open>PUT /api/admin/transactions/:id/status\<close>, behind \<^verbatim>\<open>requireAdmin\<close>.
\<close>

definition known_statuses :: "string list" where
  "known_statuses = [''pending'', ''processing'', ''completed'', ''failed'']"

definition put_transaction_status ::
  "env \<Rightarrow> bool \<Rightarrow> string \<Rightarrow> string \<Rightarrow> string option \<Rightarrow> world \<Rightarrow> transaction reply \<times> world" where
  "put_transaction_status e isAdmin i st notes w =
     (if \<not> isAdmin then (Message 403 ''Admin access required'', w)
      else if st \<notin> set known_statuses then (Message 400 ''Invalid status'', w)
      else
        (case updateTransactionStatus e i st notes w of
           (Inl err, w1) \<Rightarrow> (Message 500 ''Failed to update transaction status'', w1)
         | (Inr None, w1) \<Rightarrow> (Message 404 ''Transaction not found'', w1)
         | (Inr (Some t), w1) \<Rightarrow> (Json 200 t, w1)))"


section \<open>The operations that write to the store\<close>

text \<open>
  Every write of the routes goes through one of these operations of the storage
  interface (the store of users apart, which is not modelled); the status update is
  reached through its admin route only.
\<close>

datatype operation =
    CreateBeneficiary string insert_beneficiary
  | UpdateBeneficiary string beneficiary_patch
  | DeleteBeneficiary string
  | CreateTransaction string insert_transaction
  | UpdateFxRates rate_table
  | PutTransactionStatus bool string string "string option"

fun perform :: "env \<Rightarrow> operation \<Rightarrow> world \<Rightarrow> world" where
  "perform e (CreateBeneficiary newId b) w = snd (createBeneficiary e newId b w)"
| "perform e (UpdateBeneficiary i p) w = snd (updateBeneficiary e i p w)"
| "perform e (DeleteBeneficiary i) w = snd (deleteBeneficiary e i w)"
| "perform e (CreateTransaction newId tx) w = snd (createTransaction e newId tx w)"
| "perform e (UpdateFxRates rs) w = snd (updateFxRates e rs w)"
| "perform e (PutTransactionStatus isAdmin i st notes) w =
     snd (put_transaction_status e isAdmin i st notes w)"

text \<open>
  The one operation that is let through to the status of the transaction \<open>u\<close>: the
  status update of an admin, with a known status, for an id that the database reads
  as \<open>u\<close>.
\<close>

fun sets_status_of :: "string \<Rightarrow> env \<Rightarrow> operation \<Rightarrow> bool" where
  "sets_status_of u e (PutTransactionStatus isAdmin i st notes) =
     (isAdmin \<and> st \<in> set known_statuses \<and> id_param e i = Inr u)"
| "sets_status_of u e _ = False"

text \<open>A history of requests: each operation with the clock of its own request.\<close>

fun run :: "(env \<times> operation) list \<Rightarrow> world \<Rightarrow> world" where
  "run [] w = w"
| "run ((e, op) # rest) w = run rest (perform e op w)"


section \<open>Example inputs\<close>

text \<open>
  A request one hundred days after the epoch, with one answer of the rate provider for
  every base currency and the database in reach; a store with one beneficiary of the
  first user and one completed transaction to her, made at the epoch; a cached rate
  table written at a given time.
\<close>

definition ex_user1 :: string where
  "ex_user1 = ''00000000-0000-4000-8000-0000000000a1''"

definition ex_user2 :: string where
  "ex_user2 = ''00000000-0000-4000-8000-0000000000a2''"

definition ex_b1 :: string where
  "ex_b1 = ''00000000-0000-4000-8000-0000000000b1''"

definition ex_b9 :: string where
  "ex_b9 = ''00000000-0000-4000-8000-0000000000b9''"

definition ex_t1 :: string where
  "ex_t1 = ''00000000-0000-4000-8000-0000000000c1''"

definition ex_t2 :: string where
  "ex_t2 = ''00000000-0000-4000-8000-0000000000c2''"

definition ex_env :: "fetch_result \<Rightarrow> env" where
  "ex_env answer =
     \<lparr>now = 8640000000, yearStart = 5000000000, provider = (\<lambda>base. answer),
      storeUp = True, storeUpAfter = True\<rparr>"

definition ex_beneficiary :: beneficiary where
  "ex_beneficiary =
     \<lparr>b_id = ex_b1, b_userId = ex_user1, b_name = ''Alice'', b_accountNumber = ''12345'',
      b_country = ''DE'', b_currency = ''EUR'', b_createdAt = 0, b_updatedAt = 0\<rparr>"

definition ex_insert :: insert_transaction where
  "ex_insert =
     \<lparr>userId = ex_user1, beneficiaryId = ex_b1, sourceAmount = 200, sourceCurrency = ''USD'',
      targetAmount = ''170'', targetCurrency = ''EUR'', exchangeRate = ''0.85'',
      baseFee = ''4.99'', exchangeFee = ''1'', totalFee = ''5.99'', purpose = ''gift''\<rparr>"

definition ex_transaction :: transaction where
  "ex_transaction =
     \<lparr>userId = ex_user1, beneficiaryId = ex_b1, sourceAmount = 200, sourceCurrency = ''USD'',
      targetAmount = ''170'', targetCurrency = ''EUR'', exchangeRate = ''0.85'',
      baseFee = ''4.99'', exchangeFee = ''1'', totalFee = ''5.99'', purpose = ''gift'',
      t_id = ex_t1, status = ''completed'', isHighRisk = False, adminNotes = None,
      createdAt = 0, updatedAt = 0\<rparr>"

definition ex_row :: "timestamp \<Rightarrow> fx_row" where
  "ex_row t = \<lparr>baseCurrency = ''USD'', rates = [(''EUR'', 9 / 10)], lastUpdated = t\<rparr>"

definition ex_world :: "fx_row list \<Rightarrow> world" where
  "ex_world cache =
     \<lparr>beneficiaries = [ex_beneficiary], transactions = [ex_transaction],
      fxRates = cache, fxLog = []\<rparr>"


section \<open>Results: the FX service\<close>

text \<open>
  C6. For every currency code \<open>X\<close>, \<open>getExchangeRate X X\<close> returns 1 and leaves the world
  as it was, the log of cache reads and provider requests included: no cache lookup, no
  cache read and no fetch is performed.
\<close>

theorem getExchangeRate_identity:
  "getExchangeRate e X X w = (Inr (Rate 1), w)"
  by (simp add: getExchangeRate_def)





lemma fetchRates_after [simp]:
  "fetchRates (e\<lparr>storeUp := b\<rparr>) base = fetchRates e base"
  by (simp add: fetchRates_def)







text \<open>No property that an object inherits has the name of a currency code.\<close>

lemma currency_code_not_inherited:
  "is_currency_code k \<Longrightarrow> k \<notin> set object_prototype_keys"
  by (auto simp: is_currency_code_def object_prototype_keys_def)

text \<open>
  C4. For distinct currencies, of which the target is a currency code, and a rate table
  obtained from \<open>getCurrentRates\<close> whose values are positive (the invariant of a rate
  table), \<open>getExchangeRate\<close> signals \<open>RateUnavailable\<close> exactly when the table has no
  entry for the target currency; when it has one, that entry is the result, never a
  default in its place.
\<close>

theorem getExchangeRate_lookup:
  assumes "fromCurrency \<noteq> toCurrency"
    and "is_currency_code toCurrency"
    and "getCurrentRates e fromCurrency w = (Inr rs, w1)"
    and "\<forall>(k, v) \<in> set rs. 0 < v"
  shows "(fst (getExchangeRate e fromCurrency toCurrency w)
            = Inl (RateUnavailable fromCurrency toCurrency))
          = (map_of rs toCurrency = None) \<and>
         (case map_of rs toCurrency of
            None \<Rightarrow> True
          | Some v \<Rightarrow> getExchangeRate e fromCurrency toCurrency w = (Inr (Rate v), w1))"
proof (cases "map_of rs toCurrency")
  case None
  with assms(1,3) currency_code_not_inherited [OF assms(2)] show ?thesis
    by (simp add: getExchangeRate_def get_property_def)
next
  case (Some v)
  then have "(toCurrency, v) \<in> set rs" by (rule map_of_SomeD)
  with assms(4) have "v \<noteq> 0" by auto
  with Some assms(1,3) show ?thesis
    by (simp add: getExchangeRate_def get_property_def)
qed

text \<open>
  The theorem where the provider answers \<^verbatim>\<open>{EUR: 0.85}\<close> for the base USD: the rate to
  EUR is 0.85, and the rate to JPY is unavailable.
\<close>

theorem getExchangeRate_lookup_witness:
  "fst (getExchangeRate (ex_env (Response 200 (Payload True (Some [(''EUR'', 85 / 100)]))))
          ''USD'' ''EUR'' (ex_world [])) = Inr (Rate (85 / 100)) \<and>
   fst (getExchangeRate (ex_env (Response 200 (Payload True (Some [(''EUR'', 85 / 100)]))))
          ''USD'' ''JPY'' (ex_world [])) = Inl (RateUnavailable ''USD'' ''JPY'')"
proof -
  let ?e = "ex_env (Response 200 (Payload True (Some [(''EUR'', 85 / 100)])))"
  have distinct: "''USD'' \<noteq> ''EUR''" "''USD'' \<noteq> ''JPY''" by simp_all
  have codes: "is_currency_code ''EUR''" "is_currency_code ''JPY''"
    by (simp_all add: is_currency_code_def)
  have positive: "\<forall>(k, v) \<in> set [(''EUR'', 85 / 100 :: rat)]. 0 < v" by simp
  obtain w1 where
    fetched: "getCurrentRates ?e ''USD'' (ex_world []) = (Inr [(''EUR'', 85 / 100)], w1)"
    by (simp add: getCurrentRates_def getCurrentRates_try_def getCurrentRates_fresh_def
        getLatestFxRates_def updateFxRates_def fetchRates_def ok_def newest_def ex_env_def
        ex_world_def Let_def)
  from getExchangeRate_lookup [OF distinct(1) codes(1) fetched positive]
       getExchangeRate_lookup [OF distinct(2) codes(2) fetched positive]
  show ?thesis by simp
qed

text \<open>
  C7, at a payload without \<^verbatim>\<open>rates\<close> (status 200, body \<^verbatim>\<open>{}\<close>) and a cached table
  one hundred days old. The checks on the answer raise no error; the fallback table is
  returned in place of the cached one, and it is written to the cache with the time of
  the request.
\<close>

theorem missing_rates_taken_as_success:
  "fetchRates (ex_env (Response 200 (Payload False None))) ''USD'' = Inr None \<and>
   newest (fxRates (ex_world [ex_row 0])) = Some (ex_row 0) \<and>
   fst (getCurrentRates (ex_env (Response 200 (Payload False None))) ''USD''
         (ex_world [ex_row 0])) = Inr getFallbackRates \<and>
   fxRates (snd (getCurrentRates (ex_env (Response 200 (Payload False None))) ''USD''
         (ex_world [ex_row 0])))
     = [ex_row 0,
        \<lparr>baseCurrency = ''USD'', rates = getFallbackRates, lastUpdated = 8640000000\<rparr>]"
  by (simp add: getCurrentRates_def getCurrentRates_try_def getCurrentRates_fresh_def
      getLatestFxRates_def updateFxRates_def fetchRates_def ok_def newest_def isCacheValid_def
      cacheDuration_def ex_env_def ex_world_def ex_row_def Let_def)




section \<open>Results: fees\<close>

text \<open>
  Rounding keeps the sign, and \<^verbatim>\<open>toFixed(2)\<close> gives the hundredth nearest to its
  argument.
\<close>

lemma pow2_pos: "0 < pow2 k"
  by (simp add: pow2_def)

lemma round_half_even_nonneg: "0 \<le> r \<Longrightarrow> 0 \<le> round_half_even r"
  by (simp add: round_half_even_def Let_def)

lemma binary64_nonneg:
  assumes "0 \<le> x"
  shows "0 \<le> binary64 x"
proof (cases "x = 0")
  case True
  then show ?thesis by (simp add: binary64_def)
next
  case False
  with assms have "0 < x" by simp
  define q where "q = pow2 (exponent \<bar>x\<bar> - 52)"
  have "0 < q" by (simp add: q_def pow2_pos)
  with assms have "0 \<le> \<bar>x\<bar> / q" by simp
  then have "0 \<le> round_half_even (\<bar>x\<bar> / q)" by (rule round_half_even_nonneg)
  then have "0 \<le> rat_of_int (round_half_even (\<bar>x\<bar> / q)) * q"
    using \<open>0 < q\<close> by simp
  moreover from \<open>0 < x\<close> have "binary64 x = rat_of_int (round_half_even (\<bar>x\<bar> / q)) * q"
    by (simp add: binary64_def Let_def q_def)
  ultimately show ?thesis by simp
qed

lemma toFixed2_nearest_cent:
  assumes "0 \<le> x"
  shows "toFixed2 x = of_int \<lfloor>x * 100 + 1 / 2\<rfloor> / 100 \<and>
         \<bar>of_int \<lfloor>x * 100 + 1 / 2\<rfloor> / 100 - x\<bar> \<le> 1 / 200"
proof -
  define n where "n = \<lfloor>x * 100 + 1 / 2\<rfloor>"
  from floor_correct [of "x * 100 + 1 / 2"]
  have bounds: "of_int n \<le> x * 100 + 1 / 2" "x * 100 + 1 / 2 < of_int n + 1"
    by (simp_all add: n_def)
  from assms have "toFixed2 x = of_int n / 100" by (simp add: toFixed2_def n_def)
  moreover from bounds have "\<bar>of_int n / 100 - x\<bar> \<le> 1 / 200" by linarith
  ultimately show ?thesis by (simp only: n_def)
qed

lemma fixed2_nearest_cent:
  assumes "0 \<le> x"
  shows "fixed2 x = (if x < 10 ^ 21 then binary64 (of_int \<lfloor>x * 100 + 1 / 2\<rfloor> / 100) else x) \<and>
         \<bar>of_int \<lfloor>x * 100 + 1 / 2\<rfloor> / 100 - x\<bar> \<le> 1 / 200"
proof -
  from assms have "\<bar>x\<bar> = x" by simp
  then have "fixed2 x = (if x < 10 ^ 21 then binary64 (toFixed2 x) else x)"
    by (simp add: fixed2_def not_less)
  with toFixed2_nearest_cent [OF assms] show ?thesis by (simp only:)
qed

lemma fixed2_nonneg:
  assumes "0 \<le> x"
  shows "0 \<le> fixed2 x"
proof (cases "x < 10 ^ 21")
  case True
  with assms have "fixed2 x = binary64 (toFixed2 x)" by (simp add: fixed2_def)
  moreover from assms have "0 \<le> toFixed2 x" by (simp add: toFixed2_def)
  ultimately show ?thesis by (simp add: binary64_nonneg)
next
  case False
  with assms show ?thesis by (simp add: fixed2_def)
qed

text \<open>
  C5, as the code has it. For every amount greater than 0, \<open>calculateFees\<close> returns the
  base fee 4.99 (as a double). The exchange fee is the double nearest to \<open>n / 100\<close>,
  where \<open>n\<close> is the floor of one hundred times the product plus one half, the product
  being that of the doubles \<open>amount\<close> and 0.005, itself rounded to a double: \<open>n / 100\<close>
  is the multiple of a hundredth nearest to the product, the greater one at a tie, and at
  most 0.005 away from it. The total fee is read in the same way from the sum of the
  doubles \<open>baseFee\<close> and \<open>exchangeFee\<close>, rounded to a double. (From \<open>10 ^ 21\<close> on, the
  product or sum is returned as it is.) The result depends on the amount only.
\<close>

theorem calculateFees_rounds_doubles:
  assumes "0 < amount"
  shows "quote_baseFee (calculateFees amount) = binary64 (499 / 100) \<and>
         (let product = binary64 (amount * binary64 (5 / 1000));
              n = \<lfloor>product * 100 + 1 / 2\<rfloor>
          in quote_exchangeFee (calculateFees amount) =
               (if product < 10 ^ 21 then binary64 (of_int n / 100) else product) \<and>
             \<bar>of_int n / 100 - product\<bar> \<le> 1 / 200) \<and>
         (let total = binary64 (quote_baseFee (calculateFees amount)
                                 + quote_exchangeFee (calculateFees amount));
              n = \<lfloor>total * 100 + 1 / 2\<rfloor>
          in quote_totalFee (calculateFees amount) =
               (if total < 10 ^ 21 then binary64 (of_int n / 100) else total) \<and>
             \<bar>of_int n / 100 - total\<bar> \<le> 1 / 200)"
proof -
  define product where "product = binary64 (amount * binary64 (5 / 1000))"
  define total where "total = binary64 (binary64 (499 / 100) + fixed2 product)"
  have "0 \<le> binary64 (5 / 1000)" by (rule binary64_nonneg) simp
  with assms have "0 \<le> amount * binary64 (5 / 1000)"
    by (simp only: mult_nonneg_nonneg less_imp_le)
  then have product: "0 \<le> product" unfolding product_def by (rule binary64_nonneg)
  then have fee: "0 \<le> fixed2 product" by (rule fixed2_nonneg)
  have "0 \<le> binary64 (499 / 100)" by (rule binary64_nonneg) simp
  with fee have "0 \<le> binary64 (499 / 100) + fixed2 product" by (simp only: add_nonneg_nonneg)
  then have total: "0 \<le> total" unfolding total_def by (rule binary64_nonneg)
  have base: "quote_baseFee (calculateFees amount) = binary64 (499 / 100)"
    by (simp only: calculateFees_def Let_def fee_quote.simps)
  have exchange: "quote_exchangeFee (calculateFees amount) = fixed2 product"
    by (simp only: calculateFees_def Let_def fee_quote.simps product_def)
  have tot: "quote_totalFee (calculateFees amount) = fixed2 total"
    by (simp only: calculateFees_def Let_def fee_quote.simps product_def total_def)
  note cent = fixed2_nearest_cent [OF product] and cent_total = fixed2_nearest_cent [OF total]
  show ?thesis
    unfolding base exchange tot Let_def product_def [symmetric] total_def [symmetric]
    by (intro conjI refl conjunct1 [OF cent] conjunct2 [OF cent]
        conjunct1 [OF cent_total] conjunct2 [OF cent_total])
qed

text \<open>
  The theorem at the amount 200: the fees are 4.99, 1.00 and 5.99. At the amount 25 the
  product is the double 0.125, a tie between 0.12 and 0.13, and the exchange fee is 0.13.
\<close>

theorem calculateFees_rounds_doubles_witness:
  "quote_baseFee (calculateFees 200) = binary64 (499 / 100) \<and>
   quote_exchangeFee (calculateFees 200) = 1 \<and>
   quote_totalFee (calculateFees 200) = binary64 (599 / 100) \<and>
   binary64 (25 * binary64 (5 / 1000)) = 125 / 1000 \<and>
   \<lfloor>(125 / 1000 :: rat) * 100 + 1 / 2\<rfloor> = 13 \<and>
   quote_exchangeFee (calculateFees 25) = binary64 (13 / 100)"
proof -
  have positive: "(0 :: rat) < 200" by simp
  have fee: "quote_exchangeFee (calculateFees 200) = 1" by code_simp
  have total: "quote_totalFee (calculateFees 200) = binary64 (599 / 100)" by code_simp
  have tie: "binary64 (25 * binary64 (5 / 1000)) = 125 / 1000"
    "\<lfloor>(125 / 1000 :: rat) * 100 + 1 / 2\<rfloor> = 13"
    "quote_exchangeFee (calculateFees 25) = binary64 (13 / 100)"
    by code_simp+
  from calculateFees_rounds_doubles [OF positive] have
    "quote_baseFee (calculateFees 200) = binary64 (499 / 100)" by (rule conjunct1)
  with fee total tie show ?thesis by (intro conjI)
qed

text \<open>
  For the amount 3 the exchange fee is 0.01, where 3 times 0.005 is 0.015 and rounds to
  0.02, half up as well as half to even. For the amount 6 the total fee, 5.02, is not
  the sum of the base fee and the exchange fee, which is the double above it.
\<close>

theorem calculateFees_decimal_counterexample:
  "quote_exchangeFee (calculateFees 3) = binary64 (1 / 100) \<and>
   toFixed2 (3 * (5 / 1000)) = 2 / 100 \<and>
   of_int (round_half_even (3 * (5 / 1000) * 100)) / 100 = (2 / 100 :: rat) \<and>
   binary64 (1 / 100) \<noteq> binary64 (2 / 100) \<and>
   quote_totalFee (calculateFees 6) \<noteq>
     binary64 (quote_baseFee (calculateFees 6) + quote_exchangeFee (calculateFees 6))"
  by code_simp


section \<open>Results: transactions\<close>

text \<open>
  C1. For every creation, \<open>createTransaction\<close> sets \<open>isHighRisk\<close> exactly when the source
  amount is greater than 10000, whatever the source currency, and sets the status to
  pending when \<open>isHighRisk\<close> is set and to completed otherwise; the row is the one added
  to the store. In particular the amount 10000.00 gives a completed transaction that is
  not high-risk, and the amount 10000.01 gives a pending high-risk one.
\<close>

theorem createTransaction_risk_and_status:
  "isHighRisk (fst (createTransaction e newId tx w)) = (10000 < sourceAmount tx) \<and>
   status (fst (createTransaction e newId tx w)) =
     (if isHighRisk (fst (createTransaction e newId tx w)) then ''pending'' else ''completed'') \<and>
   transactions (snd (createTransaction e newId tx w)) =
     transactions w @ [fst (createTransaction e newId tx w)] \<and>
   isHighRisk (fst (createTransaction e newId (tx\<lparr>sourceAmount := 10000\<rparr>) w)) = False \<and>
   status (fst (createTransaction e newId (tx\<lparr>sourceAmount := 10000\<rparr>) w)) = ''completed'' \<and>
   isHighRisk (fst (createTransaction e newId (tx\<lparr>sourceAmount := 1000001 / 100\<rparr>) w)) = True \<and>
   status (fst (createTransaction e newId (tx\<lparr>sourceAmount := 1000001 / 100\<rparr>) w)) = ''pending''"
  by (simp add: createTransaction_def Let_def)

text \<open>
  A status update rewrites the rows of its own id and no other row; the other
  operations leave the table of transactions as it is or add a row at its end.
\<close>

lemma find_append_Some:
  "find P xs = Some x \<Longrightarrow> find P (xs @ ys) = Some x"
  by (induction xs) auto

lemma find_set_status:
  "find (\<lambda>t. t_id t = u) ts = Some t \<Longrightarrow>
   find (\<lambda>t. t_id t = u) (map (\<lambda>t. if t_id t = u then set_status e st notes t else t) ts)
     = Some (set_status e st notes t)"
  by (induction ts) (auto simp: set_status_def)

lemma find_set_status_other:
  "v \<noteq> u \<Longrightarrow>
   find (\<lambda>t. t_id t = u) (map (\<lambda>t. if t_id t = v then set_status e st notes t else t) ts)
     = find (\<lambda>t. t_id t = u) ts"
  by (induction ts) (auto simp: set_status_def)

lemma put_transaction_status_other:
  assumes "\<not> sets_status_of u e (PutTransactionStatus isAdmin i st notes)"
  shows "find (\<lambda>t. t_id t = u) (transactions (snd (put_transaction_status e isAdmin i st notes w)))
           = find (\<lambda>t. t_id t = u) (transactions w)"
proof (cases "isAdmin \<and> st \<in> set known_statuses")
  case False
  then show ?thesis by (auto simp: put_transaction_status_def)
next
  case True
  show ?thesis
  proof (cases "id_param e i")
    case (Inl err)
    with True show ?thesis
      by (simp add: put_transaction_status_def updateTransactionStatus_def)
  next
    case (Inr v)
    with True assms have "v \<noteq> u" by simp
    with True Inr show ?thesis
      by (simp add: put_transaction_status_def updateTransactionStatus_def Let_def
          find_set_status_other split: option.splits)
  qed
qed

lemma perform_keeps_transaction:
  assumes "find (\<lambda>t. t_id t = u) (transactions w) = Some t" and "\<not> sets_status_of u e op"
  shows "find (\<lambda>t. t_id t = u) (transactions (perform e op w)) = Some t"
proof (cases op)
  case (CreateTransaction newId tx)
  with assms(1) show ?thesis
    by (simp add: createTransaction_def Let_def find_append_Some)
next
  case (PutTransactionStatus isAdmin i st n)
  with assms put_transaction_status_other [of u e isAdmin i st n w] show ?thesis by simp
next
  case (UpdateBeneficiary i p)
  with assms(1) show ?thesis
    by (simp add: updateBeneficiary_def Let_def split: sum.splits)
next
  case (DeleteBeneficiary i)
  with assms(1) show ?thesis
    by (simp add: deleteBeneficiary_def split: sum.splits)
next
  case (CreateBeneficiary newId b)
  with assms(1) show ?thesis by (simp add: createBeneficiary_def Let_def)
next
  case (UpdateFxRates rs)
  with assms(1) show ?thesis by (simp add: updateFxRates_def Let_def)
qed

lemma run_keeps_transaction:
  "find (\<lambda>t. t_id t = u) (transactions w) = Some t \<Longrightarrow>
   \<forall>(e, op) \<in> set ops. \<not> sets_status_of u e op \<Longrightarrow>
   find (\<lambda>t. t_id t = u) (transactions (run ops w)) = Some t"
proof (induction ops arbitrary: w)
  case Nil
  then show ?case by simp
next
  case (Cons eop ops)
  obtain e op where eop: "eop = (e, op)" by (cases eop)
  with Cons.prems have "find (\<lambda>t. t_id t = u) (transactions (perform e op w)) = Some t"
    by (simp add: perform_keeps_transaction)
  with Cons.IH Cons.prems eop show ?case by simp
qed

lemma put_transaction_status_known:
  assumes "find (\<lambda>t. t_id t = u) (transactions w) = Some t"
    and "id_param e i = Inr u" and "st \<in> set known_statuses"
  shows "put_transaction_status e True i st notes w =
     (Json 200 (set_status e st notes t),
      w\<lparr>transactions :=
          map (\<lambda>x. if t_id x = u then set_status e st notes x else x) (transactions w)\<rparr>)"
  using assms
  by (simp add: put_transaction_status_def updateTransactionStatus_def find_set_status Let_def)

text \<open>
  C2, as the code has it. An existing transaction is left as it is, status included, by
  every history of operations but for one kind: the status update of an admin, with one
  of the four known statuses, for the id of that transaction. Status updates of other
  transactions, of callers who are not admins, with an unknown status or with an id that
  the database refuses may occur in the history. So completed and failed are terminal
  for all of those. The admin status update of the transaction itself is not bound by
  the current status: with a known status it answers with the updated row and rewrites
  the rows of that id only, and the status is the requested one whatever it was before
  (completed and failed included); with any other status it answers 400 and the world
  is unchanged.
\<close>

theorem status_changed_by_admin_update_only:
  assumes "find (\<lambda>t. t_id t = u) (transactions w) = Some t"
    and "\<forall>(e, op) \<in> set ops. \<not> sets_status_of u e op"
    and "id_param e i = Inr u"
  shows "find (\<lambda>t. t_id t = u) (transactions (run ops w)) = Some t \<and>
         put_transaction_status e True i st notes w =
           (if st \<in> set known_statuses
            then (Json 200 (set_status e st notes t),
                  w\<lparr>transactions :=
                      map (\<lambda>x. if t_id x = u then set_status e st notes x else x)
                        (transactions w)\<rparr>)
            else (Message 400 ''Invalid status'', w)) \<and>
         map_option status
           (find (\<lambda>t. t_id t = u)
              (transactions (perform e (PutTransactionStatus True i st notes) w))) =
           Some (if st \<in> set known_statuses then st else status t)"
proof (intro conjI)
  show "find (\<lambda>t. t_id t = u) (transactions (run ops w)) = Some t"
    using assms(1,2) by (rule run_keeps_transaction)
next
  show "put_transaction_status e True i st notes w =
           (if st \<in> set known_statuses
            then (Json 200 (set_status e st notes t),
                  w\<lparr>transactions :=
                      map (\<lambda>x. if t_id x = u then set_status e st notes x else x)
                        (transactions w)\<rparr>)
            else (Message 400 ''Invalid status'', w))"
  proof (cases "st \<in> set known_statuses")
    case True
    with assms(1,3) show ?thesis by (simp add: put_transaction_status_known)
  next
    case False
    then show ?thesis by (simp add: put_transaction_status_def)
  qed
next
  show "map_option status
           (find (\<lambda>t. t_id t = u)
              (transactions (perform e (PutTransactionStatus True i st notes) w))) =
           Some (if st \<in> set known_statuses then st else status t)"
  proof (cases "st \<in> set known_statuses")
    case True
    with assms(1,3) show ?thesis
      by (simp add: put_transaction_status_known find_set_status) (simp add: set_status_def)
  next
    case False
    with assms(1) show ?thesis by (simp add: put_transaction_status_def)
  qed
qed

text \<open>
  The theorem at the example store: the completed transaction is untouched by the
  creation of a second transaction, the admin update of that second one, an update of
  its own by a caller who is no admin, one with the status \<open>cancelled\<close> and one with an
  id that is no uuid; the admin update to processing gives it the status processing.
\<close>

theorem status_changed_by_admin_update_only_witness:
  "find (\<lambda>t. t_id t = ex_t1)
     (transactions
        (run [(ex_env Rejected, CreateTransaction ex_t2 ex_insert),
              (ex_env Rejected, PutTransactionStatus True ex_t2 ''failed'' None),
              (ex_env Rejected, PutTransactionStatus False ex_t1 ''pending'' None),
              (ex_env Rejected, PutTransactionStatus True ex_t1 ''cancelled'' None),
              (ex_env Rejected, PutTransactionStatus True ''t1'' ''pending'' None)]
           (ex_world [])))
     = Some ex_transaction \<and>
   status ex_transaction = ''completed'' \<and>
   map_option status
     (find (\<lambda>t. t_id t = ex_t1)
        (transactions
           (perform (ex_env Rejected) (PutTransactionStatus True ex_t1 ''processing'' None)
              (ex_world [])))) = Some ''processing''"
proof -
  have found: "find (\<lambda>t. t_id t = ex_t1) (transactions (ex_world [])) = Some ex_transaction"
    by (simp add: ex_world_def ex_transaction_def)
  have ids: "id_param (ex_env Rejected) ex_t1 = Inr ex_t1"
    "id_param (ex_env Rejected) ex_t2 = Inr ex_t2"
    "id_param (ex_env Rejected) ''t1'' = Inl (InvalidUuid ''t1'')"
    by code_simp+
  have "ex_t2 \<noteq> ex_t1" by (simp add: ex_t1_def ex_t2_def)
  with ids have others:
    "\<forall>(e, op) \<in> set [(ex_env Rejected, CreateTransaction ex_t2 ex_insert),
              (ex_env Rejected, PutTransactionStatus True ex_t2 ''failed'' None),
              (ex_env Rejected, PutTransactionStatus False ex_t1 ''pending'' None),
              (ex_env Rejected, PutTransactionStatus True ex_t1 ''cancelled'' None),
              (ex_env Rejected, PutTransactionStatus True ''t1'' ''pending'' None)].
        \<not> sets_status_of ex_t1 e op"
    by (simp add: known_statuses_def)
  note result = status_changed_by_admin_update_only
    [OF found others ids(1), of "''processing''" None]
  have known: "''processing'' \<in> set known_statuses" by (simp add: known_statuses_def)
  from result [THEN conjunct1] have first:
    "find (\<lambda>t. t_id t = ex_t1)
     (transactions
        (run [(ex_env Rejected, CreateTransaction ex_t2 ex_insert),
              (ex_env Rejected, PutTransactionStatus True ex_t2 ''failed'' None),
              (ex_env Rejected, PutTransactionStatus False ex_t1 ''pending'' None),
              (ex_env Rejected, PutTransactionStatus True ex_t1 ''cancelled'' None),
              (ex_env Rejected, PutTransactionStatus True ''t1'' ''pending'' None)]
           (ex_world [])))
     = Some ex_transaction" .
  from result [THEN conjunct2, THEN conjunct2] known have third:
    "map_option status
     (find (\<lambda>t. t_id t = ex_t1)
        (transactions
           (perform (ex_env Rejected) (PutTransactionStatus True ex_t1 ''processing'' None)
              (ex_world [])))) = Some ''processing''"
    by (simp only: if_True)
  have second: "status ex_transaction = ''completed''" by (simp add: ex_transaction_def)
  from first second third show ?thesis by (intro conjI)
qed

text \<open>
  A completed transaction, and the admin status update with the status pending: the
  transaction leaves the terminal status.
\<close>

theorem terminal_status_counterexample:
  "map_option status (find (\<lambda>t. t_id t = ex_t1) (transactions (ex_world [])))
     = Some ''completed'' \<and>
   map_option status
     (find (\<lambda>t. t_id t = ex_t1)
        (transactions
           (perform (ex_env Rejected) (PutTransactionStatus True ex_t1 ''pending'' None)
              (ex_world [])))) = Some ''pending''"
  by code_simp

text \<open>
  C9, at a search of the first user with the query \<open>ali\<close> and the date range \<open>30days\<close>,
  one hundred days after her only transaction: the transaction is older than the
  threshold of the range, and the same range without a query leaves it out, but with
  the query it is returned.
\<close>

theorem search_with_query_ignores_dateRange:
  "searchTransactions (ex_env Rejected) ex_user1 ''ali'' (Some ''30days'') (ex_world [])
     = [ex_transaction] \<and>
   searchTransactions (ex_env Rejected) ex_user1 [] (Some ''30days'') (ex_world []) = [] \<and>
   createdAt ex_transaction < dateThreshold (ex_env Rejected) ''30days''"
  by (simp add: searchTransactions_def ex_env_def ex_world_def ex_transaction_def
      ex_beneficiary_def newest_first_def dateThreshold_def ilike_def lower_def)


section \<open>Results: beneficiaries\<close>

text \<open>
  C10, as the code has it. Let the caller not be the owner of an existing target: the
  target does not exist, belongs to another user, or its lookup fails (the id is not a
  uuid, or the database is out of reach). Then a delete request is answered 404
  \<^verbatim>\<open>Beneficiary not found\<close> when the lookup succeeds, alike for a missing and for a
  foreign target, and 500 when it fails; an update request is answered 400 when its body
  fails the schema, before the owner is looked at, and otherwise 404 when the lookup
  succeeds, alike in both cases, and 400 when it fails. In every one of these cases the
  store is left as it was.
\<close>

theorem beneficiary_not_found_uniform:
  assumes "\<forall>b. getBeneficiaryById e w i = Inr (Some b) \<longrightarrow> b_userId b \<noteq> caller"
  shows "delete_beneficiary e caller i w =
           (case getBeneficiaryById e w i of
              Inl err \<Rightarrow> (Message 500 ''Failed to delete beneficiary'', w)
            | Inr found \<Rightarrow> (Message 404 ''Beneficiary not found'', w)) \<and>
         put_beneficiary e caller i body w =
           (if \<not> valid_patch body then (Message 400 ''Failed to update beneficiary'', w)
            else (case getBeneficiaryById e w i of
                    Inl err \<Rightarrow> (Message 400 ''Failed to update beneficiary'', w)
                  | Inr found \<Rightarrow> (Message 404 ''Beneficiary not found'', w)))"
proof (cases "getBeneficiaryById e w i")
  case (Inl err)
  then show ?thesis by (simp add: delete_beneficiary_def put_beneficiary_def)
next
  case (Inr found)
  show ?thesis
  proof (cases found)
    case None
    with Inr show ?thesis by (simp add: delete_beneficiary_def put_beneficiary_def)
  next
    case (Some b)
    with Inr assms have "b_userId b \<noteq> caller" by simp
    with Inr Some show ?thesis by (simp add: delete_beneficiary_def put_beneficiary_def)
  qed
qed

text \<open>
  The theorem for the second user: the beneficiary of the first user and an absent one
  give the same answer to a delete and to an update, and the store is unchanged.
\<close>

theorem beneficiary_not_found_uniform_witness:
  "delete_beneficiary (ex_env Rejected) ex_user2 ex_b1 (ex_world []) =
     (Message 404 ''Beneficiary not found'', ex_world []) \<and>
   put_beneficiary (ex_env Rejected) ex_user2 ex_b1
     \<lparr>p_name = Some ''Bob'', p_accountNumber = None, p_country = None, p_currency = None\<rparr>
     (ex_world []) = (Message 404 ''Beneficiary not found'', ex_world []) \<and>
   delete_beneficiary (ex_env Rejected) ex_user2 ex_b9 (ex_world []) =
     (Message 404 ''Beneficiary not found'', ex_world []) \<and>
   put_beneficiary (ex_env Rejected) ex_user2 ex_b9
     \<lparr>p_name = Some ''Bob'', p_accountNumber = None, p_country = None, p_currency = None\<rparr>
     (ex_world []) = (Message 404 ''Beneficiary not found'', ex_world [])"
proof -
  let ?body = "\<lparr>p_name = Some ''Bob'', p_accountNumber = None, p_country = None, p_currency = None\<rparr>"
  have other: "getBeneficiaryById (ex_env Rejected) (ex_world []) ex_b1 = Inr (Some ex_beneficiary)"
    by code_simp
  have absent: "getBeneficiaryById (ex_env Rejected) (ex_world []) ex_b9 = Inr None"
    by code_simp
  have owner: "b_userId ex_beneficiary \<noteq> ex_user2"
    by (simp add: ex_beneficiary_def ex_user1_def ex_user2_def)
  have valid: "valid_patch ?body" by (simp add: valid_patch_def)
  from other owner have
    h1: "\<forall>b. getBeneficiaryById (ex_env Rejected) (ex_world []) ex_b1 = Inr (Some b)
           \<longrightarrow> b_userId b \<noteq> ex_user2" by simp
  from absent have
    h2: "\<forall>b. getBeneficiaryById (ex_env Rejected) (ex_world []) ex_b9 = Inr (Some b)
           \<longrightarrow> b_userId b \<noteq> ex_user2" by simp
  from beneficiary_not_found_uniform [OF h1, of ?body] beneficiary_not_found_uniform [OF h2, of ?body]
    other absent valid
  show ?thesis by simp
qed

text \<open>
  An update request for a beneficiary that does not exist, with a name of one letter, is
  answered with the 400 of the schema; and for the id \<^verbatim>\<open>b9\<close>, which is not a uuid, a
  delete is answered 500 and an update 400: none of them 404.
\<close>

theorem beneficiary_not_found_counterexample:
  "getBeneficiaryById (ex_env Rejected) (ex_world []) ex_b9 = Inr None \<and>
   put_beneficiary (ex_env Rejected) ex_user1 ex_b9
     \<lparr>p_name = Some ''A'', p_accountNumber = None, p_country = None, p_currency = None\<rparr>
     (ex_world [])
   = (Message 400 ''Failed to update beneficiary'', ex_world []) \<and>
   delete_beneficiary (ex_env Rejected) ex_user1 ''b9'' (ex_world [])
   = (Message 500 ''Failed to delete beneficiary'', ex_world []) \<and>
   put_beneficiary (ex_env Rejected) ex_user1 ''b9''
     \<lparr>p_name = Some ''Bob'', p_accountNumber = None, p_country = None, p_currency = None\<rparr>
     (ex_world [])
   = (Message 400 ''Failed to update beneficiary'', ex_world [])"
  by code_simp

end
